theory Spec2Isabelle
  imports Main
begin

section \<open>JavaScript values\<close>

text \<open>
  The values a parsed request body can hold. Numbers are restricted to the integers;
  an object keeps its keys in insertion order and holds each key once.
\<close>

datatype jsval =
    JUndefined
  | JNull
  | JBool bool
  | JNum int
  | JStr string
  | JArr "jsval list"
  | JObj "(string \<times> jsval) list"

text \<open>Truthiness: \<open>undefined\<close>, \<open>null\<close>, \<open>false\<close>, \<open>0\<close> and \<open>""\<close> are falsy.\<close>

fun truthy :: "jsval \<Rightarrow> bool" where
  "truthy JUndefined = False"
| "truthy JNull = False"
| "truthy (JBool b) = b"
| "truthy (JNum n) = (n \<noteq> 0)"
| "truthy (JStr s) = (s \<noteq> [])"
| "truthy (JArr xs) = True"
| "truthy (JObj kvs) = True"

text \<open>The operator \<open>!v\<close>.\<close>

definition js_not :: "jsval \<Rightarrow> bool" where
  "js_not v = (\<not> truthy v)"

text \<open>
  Reading a property: a missing key of an object reads as \<open>undefined\<close>; an array and a
  primitive value have neither of the properties the handlers read.
\<close>

fun get_prop :: "jsval \<Rightarrow> string \<Rightarrow> jsval" where
  "get_prop (JObj kvs) k = (case map_of kvs k of None \<Rightarrow> JUndefined | Some v \<Rightarrow> v)"
| "get_prop v k = JUndefined"

section \<open>The persistence model (models/notification.model.js)\<close>

text \<open>
  What the runtime and the database supply to one call: the ObjectId the new document
  gets, the clock, whether the insert or the query fails, and the number-to-string
  conversion of the runtime.
\<close>

record env =
  new_id :: string
  now :: int
  insert_fails :: bool
  find_fails :: bool
  number_toString :: "int \<Rightarrow> string"

text \<open>
  A stored document of the \<open>Notification\<close> model: the three paths of the schema, the
  generated \<open>_id\<close>, and the two timestamps that the option \<open>timestamps: true\<close> adds.
  A path that was never set is \<open>None\<close>.
\<close>

record notification_doc =
  oid :: string
  message :: "string option"
  userId :: "string option"
  read :: "bool option"
  createdAt :: int
  updatedAt :: int

text \<open>The options of one schema path: \<open>required\<close> and \<open>default\<close> (\<open>undefined\<close> when none).\<close>

record path_options =
  required :: bool
  default_value :: jsval

text \<open>
  \<open>message: {type: String, required: true}\<close>, \<open>userId: {type: String}\<close>,
  \<open>read: {type: Boolean, default: false}\<close>.
\<close>

definition message_path :: path_options where
  "message_path = \<lparr>required = True, default_value = JUndefined\<rparr>"

definition userId_path :: path_options where
  "userId_path = \<lparr>required = False, default_value = JUndefined\<rparr>"

definition read_path :: path_options where
  "read_path = \<lparr>required = False, default_value = JBool False\<rparr>"

datatype 'a cast = CastError | Cast 'a

text \<open>
  Casting to a String path: \<open>null\<close> and \<open>undefined\<close> stay unset, a string is kept as it
  is, a number and a boolean are converted with \<open>toString\<close>, an object carrying a string
  \<open>_id\<close> casts to that id, and an array or any other object is a cast error.
\<close>

fun castString :: "env \<Rightarrow> jsval \<Rightarrow> string option cast" where
  "castString e JUndefined = Cast None"
| "castString e JNull = Cast None"
| "castString e (JStr s) = Cast (Some s)"
| "castString e (JNum n) = Cast (Some (number_toString e n))"
| "castString e (JBool b) = Cast (Some (if b then ''true'' else ''false''))"
| "castString e (JArr xs) = CastError"
| "castString e (JObj kvs) =
     (case map_of kvs ''_id'' of
        Some (JStr s) \<Rightarrow> if s \<noteq> [] then Cast (Some s) else CastError
      | _ \<Rightarrow> CastError)"

text \<open>
  Casting to a Boolean path: \<open>true\<close>, \<open>"true"\<close>, \<open>1\<close>, \<open>"1"\<close>, \<open>"yes"\<close> are true;
  \<open>false\<close>, \<open>"false"\<close>, \<open>0\<close>, \<open>"0"\<close>, \<open>"no"\<close> are false.
\<close>

fun castBoolean :: "jsval \<Rightarrow> bool option cast" where
  "castBoolean JUndefined = Cast None"
| "castBoolean JNull = Cast None"
| "castBoolean (JBool b) = Cast (Some b)"
| "castBoolean (JNum n) =
     (if n = 1 then Cast (Some True) else if n = 0 then Cast (Some False) else CastError)"
| "castBoolean (JStr s) =
     (if s = ''true'' then Cast (Some True)
      else if s = ''1'' then Cast (Some True)
      else if s = ''yes'' then Cast (Some True)
      else if s = ''false'' then Cast (Some False)
      else if s = ''0'' then Cast (Some False)
      else if s = ''no'' then Cast (Some False)
      else CastError)"
| "castBoolean (JArr xs) = CastError"
| "castBoolean (JObj kvs) = CastError"

text \<open>The \<open>required\<close> validator of a String path accepts a string of non-zero length.\<close>

fun checkRequired :: "string option \<Rightarrow> bool" where
  "checkRequired None = False"
| "checkRequired (Some s) = (s \<noteq> [])"

datatype validator_error = CastFailed | Required

datatype error =
    Error string
  | TypeError
  | ValidationError "(string \<times> validator_error) list"
  | MongoError

text \<open>A path that was given \<open>undefined\<close> takes its default.\<close>

definition apply_default :: "path_options \<Rightarrow> jsval \<Rightarrow> jsval" where
  "apply_default p v = (if v = JUndefined then default_value p else v)"

definition set_string_path ::
  "env \<Rightarrow> string \<Rightarrow> path_options \<Rightarrow> jsval \<Rightarrow> (string \<times> validator_error) list \<times> string option" where
  "set_string_path e name p v =
     (case castString e (apply_default p v) of
        CastError \<Rightarrow> ([(name, CastFailed)], None)
      | Cast s \<Rightarrow>
          if required p then (if checkRequired s then ([], s) else ([(name, Required)], s))
          else ([], s))"

definition set_boolean_path ::
  "string \<Rightarrow> path_options \<Rightarrow> jsval \<Rightarrow> (string \<times> validator_error) list \<times> bool option" where
  "set_boolean_path name p v =
     (case castBoolean (apply_default p v) of
        CastError \<Rightarrow> ([(name, CastFailed)], None)
      | Cast b \<Rightarrow>
          if required p then (if b = None then ([(name, Required)], b) else ([], b))
          else ([], b))"

text \<open>
  \<open>notiSchema.create({message, userId})\<close>: the document is built from the two given
  values (\<open>read\<close> is not given and takes its default), validated against the schema, and
  inserted. A validation error or a failed insert rejects, and nothing is stored.
\<close>

definition create ::
  "env \<Rightarrow> jsval \<Rightarrow> jsval \<Rightarrow> notification_doc list \<Rightarrow> error + (notification_doc \<times> notification_doc list)" where
  "create e msg uid coll =
     (let (merr, m) = set_string_path e ''message'' message_path msg;
          (uerr, u) = set_string_path e ''userId'' userId_path uid;
          (rerr, r) = set_boolean_path ''read'' read_path JUndefined;
          errs = merr @ uerr @ rerr
      in if errs \<noteq> [] then Inl (ValidationError errs)
         else if insert_fails e then Inl MongoError
         else
           (let doc = \<lparr>oid = new_id e, message = m, userId = u, read = r,
                       createdAt = now e, updatedAt = now e\<rparr>
            in Inr (doc, coll @ [doc])))"

text \<open>\<open>notiSchema.find()\<close>: every document of the collection, or a rejection.\<close>

definition find :: "env \<Rightarrow> notification_doc list \<Rightarrow> error + notification_doc list" where
  "find e coll = (if find_fails e then Inl MongoError else Inr coll)"

section \<open>The realtime server (config/server.config.js)\<close>

text \<open>What a listener does when it runs: both listeners of the module only log a line.\<close>

datatype callback = ConsoleLog string

datatype log_entry = Text string | Values "jsval list"

text \<open>
  A connected socket: its id, the listeners registered on it with \<open>socket.on\<close>, and the
  events the server has sent to it, oldest first.
\<close>

record socket =
  sid :: string
  handlers :: "(string \<times> callback) list"
  received :: "(string \<times> notification_doc) list"

text \<open>The socket.io server: the sockets that are connected now.\<close>

record io_server =
  sockets :: "socket list"

datatype http_method = GET | POST

datatype handler = Notification | GetNotification

text \<open>A continuation of an async function, suspended at its \<open>await\<close>.\<close>

datatype task = InitSocketResume

text \<open>
  The state of the process: the module variable \<open>io\<close> (\<open>None\<close> while it is
  \<open>undefined\<close>), the collection of the \<open>Notification\<close> model, the console, the routes
  mounted on the Express application, whether \<open>server.listen\<close> was called, and the
  suspended continuations.
\<close>

record server =
  io :: "io_server option"
  collection :: "notification_doc list"
  console :: "log_entry list"
  routes :: "(http_method \<times> string \<times> handler) list"
  listening :: bool
  pending :: "task list"

definition console_log :: "log_entry \<Rightarrow> server \<Rightarrow> server" where
  "console_log l st = st\<lparr>console := console st @ [l]\<rparr>"

text \<open>
  \<open>initSocket(server)\<close>, as index.js calls it (without \<open>await\<close>): the function runs up to
  \<open>await import("socket.io")\<close> and returns there; \<open>io\<close> is not assigned yet.
\<close>

definition initSocket :: "server \<Rightarrow> server" where
  "initSocket st = st\<lparr>pending := pending st @ [InitSocketResume]\<rparr>"

text \<open>
  The rest of \<open>initSocket\<close>, run when the import has resolved: \<open>io\<close> becomes a new
  server without sockets, and the connection listener is registered on it.
\<close>

definition initSocket_resume :: "server \<Rightarrow> server" where
  "initSocket_resume st = st\<lparr>io := Some \<lparr>sockets = []\<rparr>\<rparr>"

text \<open>\<open>socket.on(event, cb)\<close>.\<close>

definition socket_on :: "string \<Rightarrow> callback \<Rightarrow> socket \<Rightarrow> socket" where
  "socket_on ev cb s = s\<lparr>handlers := handlers s @ [(ev, cb)]\<rparr>"

text \<open>The listener of \<open>io.on("connection", ...)\<close>: it logs, and subscribes the socket.\<close>

definition on_connection :: "socket \<Rightarrow> server \<Rightarrow> socket \<times> server" where
  "on_connection s st =
     (let st1 = console_log (Text ''Connected Successfully...'') st;
          s1 = socket_on ''disconnected'' (ConsoleLog ''Server Disconnected...'') s
      in (s1, st1))"

definition getIo :: "server \<Rightarrow> error + io_server" where
  "getIo st =
     (case io st of
        None \<Rightarrow> Inl (Error ''Socket not initialized...'')
      | Some srv \<Rightarrow> Inr srv)"

subsection \<open>What socket.io does with the server\<close>

text \<open>\<open>io.emit(event, payload)\<close> sends the event to every connected socket.\<close>

definition emit :: "string \<Rightarrow> notification_doc \<Rightarrow> io_server \<Rightarrow> io_server" where
  "emit ev payload srv =
     srv\<lparr>sockets := map (\<lambda>s. s\<lparr>received := received s @ [(ev, payload)]\<rparr>) (sockets srv)\<rparr>"

text \<open>
  A client connects: a socket with the given id and no listeners is created, the
  connection listener runs on it, and the socket joins the connected ones. Without a
  server (\<open>io\<close> unassigned) nobody accepts the connection.
\<close>

definition client_connects :: "string \<Rightarrow> server \<Rightarrow> server" where
  "client_connects i st =
     (case io st of
        None \<Rightarrow> st
      | Some srv \<Rightarrow>
          (let (s, st1) = on_connection \<lparr>sid = i, handlers = [], received = []\<rparr> st
           in st1\<lparr>io := Some (srv\<lparr>sockets := sockets srv @ [s]\<rparr>)\<rparr>))"

fun run_callback :: "callback \<Rightarrow> server \<Rightarrow> server" where
  "run_callback (ConsoleLog l) st = console_log (Text l) st"

text \<open>Firing an event on a socket runs the listeners registered under that name, in order.\<close>

definition fire :: "string \<Rightarrow> socket \<Rightarrow> server \<Rightarrow> server" where
  "fire ev s st = fold run_callback (map snd (filter (\<lambda>h. fst h = ev) (handlers s))) st"

text \<open>
  A connection closes: the transport fires \<open>disconnect\<close> on each socket of that id and
  drops it from the connected ones.
\<close>

definition client_disconnects :: "string \<Rightarrow> server \<Rightarrow> server" where
  "client_disconnects i st =
     (case io st of
        None \<Rightarrow> st
      | Some srv \<Rightarrow>
          (let closing = filter (\<lambda>s. sid s = i) (sockets srv);
               st1 = fold (fire ''disconnect'') closing st
           in st1\<lparr>io := Some (srv\<lparr>sockets := filter (\<lambda>s. sid s \<noteq> i) (sockets srv)\<rparr>)\<rparr>))"

section \<open>The controllers (controllers/notification.controller.js)\<close>

text \<open>
  A request, with \<open>req.body\<close> as the body parsers leave it: the parsed object (or
  array), or \<open>undefined\<close> when the request had no body to parse.
\<close>

record request =
  body :: jsval

datatype res_data = Record notification_doc | Records "notification_doc list"

text \<open>The JSON object of a response; \<open>data\<close> is \<open>None\<close> where the object has no such key.\<close>

record json_body =
  body_message :: string
  success :: bool
  data :: "res_data option"

record response =
  status :: nat
  json :: json_body

text \<open>
  \<open>notification(req, res)\<close>. The result is the new state, and either the response
  that was sent or the error the handler threw (it has no \<open>try\<close>): destructuring a
  body that is \<open>undefined\<close> or \<open>null\<close> throws a \<open>TypeError\<close> before anything else
  runs, a rejection of \<open>create\<close> leaves before \<open>getIo\<close>, and a throw of \<open>getIo\<close>
  leaves after the document was stored.
\<close>

definition notification :: "env \<Rightarrow> request \<Rightarrow> server \<Rightarrow> server \<times> (error + response)" where
  "notification e req st =
     (if body req = JUndefined \<or> body req = JNull then (st, Inl TypeError)
      else
       (let msg = get_prop (body req) ''message'';
            uid = get_prop (body req) ''userId'';
            st1 = console_log (Values [msg, uid]) st
        in if js_not msg \<or> js_not uid then
             (st1, Inr \<lparr>status = 400,
                        json = \<lparr>body_message = ''Bad Request'', success = False,
                                data = None\<rparr>\<rparr>)
           else
             (case create e msg uid (collection st1) of
                Inl err \<Rightarrow> (st1, Inl err)
              | Inr (newNotification, coll) \<Rightarrow>
                  (let st2 = st1\<lparr>collection := coll\<rparr> in
                   case getIo st2 of
                     Inl err \<Rightarrow> (st2, Inl err)
                   | Inr srv \<Rightarrow>
                       (st2\<lparr>io := Some (emit ''notification'' newNotification srv)\<rparr>,
                        Inr \<lparr>status = 201,
                             json = \<lparr>body_message = ''Notification Sent Successfully'',
                                     success = True,
                                     data = Some (Record newNotification)\<rparr>\<rparr>)))))"

text \<open>\<open>getNotification(req, res)\<close>: the query runs inside \<open>try\<close>, so a rejection is answered.\<close>

definition getNotification :: "env \<Rightarrow> request \<Rightarrow> server \<Rightarrow> server \<times> (error + response)" where
  "getNotification e req st =
     (case find e (collection st) of
        Inl err \<Rightarrow>
          (st, Inr \<lparr>status = 500,
                    json = \<lparr>body_message = ''Internal Server Error'', success = False,
                            data = None\<rparr>\<rparr>)
      | Inr found \<Rightarrow>
          if length found = 0 then
            (st, Inr \<lparr>status = 404,
                      json = \<lparr>body_message = ''No Notification Found'', success = False,
                              data = None\<rparr>\<rparr>)
          else
            (st, Inr \<lparr>status = 200,
                      json = \<lparr>body_message = ''Notification Sent Successfully'',
                              success = True, data = Some (Records found)\<rparr>\<rparr>))"

section \<open>Routing and startup (routes/notification.routes.js, index.js)\<close>

text \<open>\<open>router.post("/", notification)\<close> and \<open>router.get("/", getNotification)\<close>.\<close>

definition notificationRoute :: "(http_method \<times> string \<times> handler) list" where
  "notificationRoute = [(POST, ''/'', Notification), (GET, ''/'', GetNotification)]"

text \<open>\<open>app.use(prefix, router)\<close>: the routes of the router, under the prefix.\<close>

definition app_use :: "string \<Rightarrow> (http_method \<times> string \<times> handler) list \<Rightarrow> server \<Rightarrow> server" where
  "app_use prefix router st =
     st\<lparr>routes := routes st @
          map (\<lambda>(m, p, h). (m, if p = ''/'' then prefix else prefix @ p, h)) router\<rparr>"

definition listen :: "server \<Rightarrow> server" where
  "listen st = st\<lparr>listening := True\<rparr>"

text \<open>
  The statements of index.js, in their order: \<open>initSocket(server)\<close> (not awaited), the
  mounting of the notification routes, \<open>server.listen\<close>. The database connection, the
  body parsers, CORS and the route \<open>/\<close> (a fixed text) leave the modelled state as it is.
\<close>

definition index_js :: "server \<Rightarrow> server" where
  "index_js st = listen (app_use ''/notification'' notificationRoute (initSocket st))"

text \<open>The process before index.js runs, over the documents the database holds.\<close>

definition boot :: "notification_doc list \<Rightarrow> server" where
  "boot coll = \<lparr>io = None, collection = coll, console = [], routes = [], listening = False,
                pending = []\<rparr>"

fun run_task :: "task \<Rightarrow> server \<Rightarrow> server" where
  "run_task InitSocketResume st = initSocket_resume st"

text \<open>The event loop resumes the oldest suspended continuation.\<close>

definition resume :: "server \<Rightarrow> server" where
  "resume st =
     (case pending st of
        [] \<Rightarrow> st
      | t # ts \<Rightarrow> run_task t (st\<lparr>pending := ts\<rparr>))"

fun run_handler :: "handler \<Rightarrow> env \<Rightarrow> request \<Rightarrow> server \<Rightarrow> server \<times> (error + response)" where
  "run_handler Notification e req st = notification e req st"
| "run_handler GetNotification e req st = getNotification e req st"

subsection \<open>What Express does with a request\<close>

text \<open>
  Routing is not case sensitive and not strict: \<open>/notification\<close>, \<open>/notification/\<close> and
  \<open>/NOTIFICATION\<close> reach the same routes.
\<close>

definition lower :: "char \<Rightarrow> char" where
  "lower c =
     (case map_of (zip ''ABCDEFGHIJKLMNOPQRSTUVWXYZ'' ''abcdefghijklmnopqrstuvwxyz'') c of
        None \<Rightarrow> c
      | Some l \<Rightarrow> l)"

definition strip_slash :: "string \<Rightarrow> string" where
  "strip_slash p = (if 1 < length p \<and> last p = CHR ''/'' then butlast p else p)"

definition same_path :: "string \<Rightarrow> string \<Rightarrow> bool" where
  "same_path route p = (map lower (strip_slash p) = map lower (strip_slash route))"

definition lookup_route ::
  "http_method \<Rightarrow> string \<Rightarrow> (http_method \<times> string \<times> handler) list \<Rightarrow> handler option" where
  "lookup_route m p rs =
     (case filter (\<lambda>(m', p', h). m' = m \<and> same_path p' p) rs of
        [] \<Rightarrow> None
      | (m', p', h) # others \<Rightarrow> Some h)"

text \<open>
  A request arrives: a process that listens runs the handler mounted for the method and
  the path, with the outcome of the handler. \<open>None\<close> when the process does not listen
  or has no such route.
\<close>

definition dispatch ::
  "env \<Rightarrow> http_method \<Rightarrow> string \<Rightarrow> request \<Rightarrow> server \<Rightarrow> (server \<times> (error + response)) option" where
  "dispatch e m p req st =
     (if listening st then
        (case lookup_route m p (routes st) of
           None \<Rightarrow> None
         | Some h \<Rightarrow> Some (run_handler h e req st))
      else None)"

text \<open>
  What the client is answered: the response a handler sent, or the error page of the
  framework with its status.
\<close>

datatype answer = Sent response | ErrorPage nat

text \<open>
  index.js installs no error handler, so an error that a handler throws goes to the
  one of the framework. As Express 5 does, the rejection of an async handler is passed
  to it as well, and it answers with status 500 for an error that carries no status of
  its own, as none of these does.
\<close>

fun final_handler :: "error \<Rightarrow> answer" where
  "final_handler (Error text) = ErrorPage 500"
| "final_handler TypeError = ErrorPage 500"
| "final_handler (ValidationError errs) = ErrorPage 500"
| "final_handler MongoError = ErrorPage 500"

fun answer_of :: "error + response \<Rightarrow> answer" where
  "answer_of (Inl err) = final_handler err"
| "answer_of (Inr res) = Sent res"

definition http_request ::
  "env \<Rightarrow> http_method \<Rightarrow> string \<Rightarrow> request \<Rightarrow> server \<Rightarrow> (server \<times> answer) option" where
  "http_request e m p req st =
     (case dispatch e m p req st of
        None \<Rightarrow> None
      | Some (st', out) \<Rightarrow> Some (st', answer_of out))"

section \<open>Sample inputs\<close>

definition sample_env :: env where
  "sample_env = \<lparr>new_id = ''65f0c0ffee'', now = 1700000000000, insert_fails = False,
                  find_fails = False, number_toString = (\<lambda>n. ''n'')\<rparr>"

definition sample_request :: request where
  "sample_request = \<lparr>body = JObj [(''message'', JStr ''hi''), (''userId'', JStr ''u1'')]\<rparr>"

definition sample_doc :: notification_doc where
  "sample_doc = \<lparr>oid = ''65f0c0ffee'', message = Some ''hi'', userId = Some ''u1'',
                  read = Some False, createdAt = 1700000000000, updatedAt = 1700000000000\<rparr>"

definition sample_server :: server where
  "sample_server =
     \<lparr>io = Some \<lparr>sockets = [\<lparr>sid = ''a'', handlers = [], received = []\<rparr>,
                               \<lparr>sid = ''b'', handlers = [], received = []\<rparr>]\<rparr>,
      collection = [], console = [], routes = [], listening = True, pending = []\<rparr>"

section \<open>Facts about the persistence model\<close>

lemma read_default: "set_boolean_path ''read'' read_path JUndefined = ([], Some False)"
  by (simp add: set_boolean_path_def read_path_def apply_default_def)

lemma message_path_string:
  "set_string_path e ''message'' message_path (JStr m) =
     (if m = [] then ([(''message'', Required)], Some m) else ([], Some m))"
  by (simp add: set_string_path_def message_path_def apply_default_def)

lemma message_path_undefined:
  "set_string_path e ''message'' message_path JUndefined = ([(''message'', Required)], None)"
  by (simp add: set_string_path_def message_path_def apply_default_def)

lemma userId_path_string:
  "set_string_path e ''userId'' userId_path (JStr u) = ([], Some u)"
  by (simp add: set_string_path_def userId_path_def apply_default_def)

lemma userId_path_undefined:
  "set_string_path e ''userId'' userId_path JUndefined = ([], None)"
  by (simp add: set_string_path_def userId_path_def apply_default_def)

lemma userId_path_truthy:
  assumes "truthy uid" and "set_string_path e ''userId'' userId_path uid = ([], us)"
  shows "\<exists>s. us = Some s"
proof (cases uid)
  case (JObj kvs)
  with assms(2) show ?thesis
    by (auto simp: set_string_path_def userId_path_def apply_default_def
        split: option.splits jsval.splits if_splits)
qed (use assms in \<open>auto simp: set_string_path_def userId_path_def apply_default_def\<close>)

lemma create_strings:
  assumes "m \<noteq> []" and "\<not> insert_fails e"
  shows "create e (JStr m) (JStr u) coll =
     Inr (\<lparr>oid = new_id e, message = Some m, userId = Some u, read = Some False,
           createdAt = now e, updatedAt = now e\<rparr>,
          coll @ [\<lparr>oid = new_id e, message = Some m, userId = Some u, read = Some False,
                   createdAt = now e, updatedAt = now e\<rparr>])"
  unfolding create_def message_path_string userId_path_string read_default
  using assms by (simp add: Let_def)

lemma create_Inr:
  assumes "create e m u coll = Inr (doc, coll')"
  shows "coll' = coll @ [doc] \<and> oid doc = new_id e \<and> createdAt doc = now e \<and>
     updatedAt doc = now e \<and> read doc = Some False \<and>
     set_string_path e ''message'' message_path m = ([], message doc) \<and>
     set_string_path e ''userId'' userId_path u = ([], userId doc)"
proof -
  obtain merr ms where m: "set_string_path e ''message'' message_path m = (merr, ms)"
    by (cases "set_string_path e ''message'' message_path m")
  obtain uerr us where u: "set_string_path e ''userId'' userId_path u = (uerr, us)"
    by (cases "set_string_path e ''userId'' userId_path u")
  from assms show ?thesis
    unfolding create_def m u read_default
    by (auto simp: Let_def split: if_splits)
qed

section \<open>Facts about the write handler\<close>

lemma truthy_prop_body:
  assumes "truthy (get_prop v k)"
  shows "v \<noteq> JUndefined \<and> v \<noteq> JNull"
  using assms by (cases v) auto

lemma notification_no_body:
  assumes "body req = JUndefined \<or> body req = JNull"
  shows "notification e req st = (st, Inl TypeError)"
  using assms by (auto simp: notification_def)

lemma notification_bad_request:
  assumes "body req \<noteq> JUndefined" and "body req \<noteq> JNull"
    and "js_not (get_prop (body req) ''message'') \<or> js_not (get_prop (body req) ''userId'')"
  shows "notification e req st =
     (console_log (Values [get_prop (body req) ''message'', get_prop (body req) ''userId'']) st,
      Inr \<lparr>status = 400,
           json = \<lparr>body_message = ''Bad Request'', success = False, data = None\<rparr>\<rparr>)"
  using assms by (simp add: notification_def Let_def)

lemma notification_create_rejected:
  assumes "truthy (get_prop (body req) ''message'')"
    and "truthy (get_prop (body req) ''userId'')"
    and "create e (get_prop (body req) ''message'') (get_prop (body req) ''userId'')
           (collection st) = Inl err"
  shows "notification e req st =
     (console_log (Values [get_prop (body req) ''message'', get_prop (body req) ''userId'']) st,
      Inl err)"
  using assms truthy_prop_body [OF assms(1)]
  by (simp add: notification_def Let_def js_not_def console_log_def)

lemma notification_created:
  assumes "get_prop (body req) ''message'' = JStr m" and "m \<noteq> []"
    and "get_prop (body req) ''userId'' = JStr u" and "u \<noteq> []"
    and "\<not> insert_fails e" and "io st = Some srv"
    and "doc = \<lparr>oid = new_id e, message = Some m, userId = Some u, read = Some False,
                 createdAt = now e, updatedAt = now e\<rparr>"
  shows "notification e req st =
     (st\<lparr>console := console st @ [Values [JStr m, JStr u]],
         collection := collection st @ [doc],
         io := Some (emit ''notification'' doc srv)\<rparr>,
      Inr \<lparr>status = 201,
           json = \<lparr>body_message = ''Notification Sent Successfully'', success = True,
                   data = Some (Record doc)\<rparr>\<rparr>)"
proof -
  have "truthy (get_prop (body req) ''message'')"
    using assms(1,2) by simp
  from truthy_prop_body [OF this] have present: "body req \<noteq> JUndefined" "body req \<noteq> JNull"
    by simp_all
  have "create e (JStr m) (JStr u) (collection st) = Inr (doc, collection st @ [doc])"
    using create_strings [OF assms(2) assms(5)] assms(7) by simp
  then show ?thesis
    using assms(1-4,6) present
    by (simp add: notification_def Let_def js_not_def console_log_def getIo_def)
qed

lemma notification_responded_201:
  assumes "notification e req st = (st', Inr res)" and "status res = 201"
  shows "\<exists>doc srv.
      create e (get_prop (body req) ''message'') (get_prop (body req) ''userId'') (collection st)
        = Inr (doc, collection st @ [doc]) \<and>
      io st = Some srv \<and>
      st' = st\<lparr>console := console st @
                  [Values [get_prop (body req) ''message'', get_prop (body req) ''userId'']],
                collection := collection st @ [doc],
                io := Some (emit ''notification'' doc srv)\<rparr> \<and>
      res = \<lparr>status = 201,
             json = \<lparr>body_message = ''Notification Sent Successfully'', success = True,
                     data = Some (Record doc)\<rparr>\<rparr>"
proof -
  let ?msg = "get_prop (body req) ''message''"
  let ?uid = "get_prop (body req) ''userId''"
  let ?st1 = "console_log (Values [?msg, ?uid]) st"
  from assms(1) have present: "\<not> (body req = JUndefined \<or> body req = JNull)"
    by (auto simp: notification_def)
  with assms have ok: "\<not> (js_not ?msg \<or> js_not ?uid)"
    by (auto simp: notification_def Let_def)
  then obtain doc coll where cr: "create e ?msg ?uid (collection ?st1) = Inr (doc, coll)"
    using assms(1) present
    by (cases "create e ?msg ?uid (collection ?st1)") (auto simp: notification_def Let_def)
  then obtain srv where g: "getIo (?st1\<lparr>collection := coll\<rparr>) = Inr srv"
    using assms(1) ok present
    by (cases "getIo (?st1\<lparr>collection := coll\<rparr>)") (auto simp: notification_def Let_def)
  from assms(1) ok cr g present have
    st': "st' = ?st1\<lparr>collection := coll, io := Some (emit ''notification'' doc srv)\<rparr>"
    and res: "res = \<lparr>status = 201,
             json = \<lparr>body_message = ''Notification Sent Successfully'', success = True,
                     data = Some (Record doc)\<rparr>\<rparr>"
    by (auto simp: notification_def Let_def)
  from g have io: "io st = Some srv"
    by (auto simp: getIo_def console_log_def split: option.splits)
  from create_Inr [OF cr] have d: "coll = collection st @ [doc]"
    by (simp add: console_log_def)
  from cr d have "create e ?msg ?uid (collection st) = Inr (doc, collection st @ [doc])"
    by (simp add: console_log_def)
  with st' res io d show ?thesis
    by (simp add: console_log_def)
qed

lemma emit_reaches_every_socket:
  "list_all2 (\<lambda>s s'. sid s' = sid s \<and> handlers s' = handlers s \<and>
        received s' = received s @ [(ev, payload)])
     (sockets srv) (sockets (emit ev payload srv))"
  by (simp add: emit_def list_all2_map2 list.rel_refl)

section \<open>Facts about startup and routing\<close>

lemma started:
  "index_js (boot coll) =
     \<lparr>io = None, collection = coll, console = [],
      routes = [(POST, ''/notification'', Notification),
                (GET, ''/notification'', GetNotification)],
      listening = True, pending = [InitSocketResume]\<rparr>"
  by (simp add: index_js_def boot_def initSocket_def app_use_def notificationRoute_def
      listen_def)

lemma started_resumed:
  "resume (index_js (boot coll)) =
     \<lparr>io = Some \<lparr>sockets = []\<rparr>, collection = coll, console = [],
      routes = [(POST, ''/notification'', Notification),
                (GET, ''/notification'', GetNotification)],
      listening = True, pending = []\<rparr>"
  by (simp add: started resume_def initSocket_resume_def)

lemma post_notification_route:
  "lookup_route POST ''/notification''
     [(POST, ''/notification'', Notification), (GET, ''/notification'', GetNotification)] =
   Some Notification"
  by (simp add: lookup_route_def same_path_def)

lemma http_request_handler:
  assumes "listening st" and "lookup_route m p (routes st) = Some h"
  shows "http_request e m p req st =
     Some (fst (run_handler h e req st), answer_of (snd (run_handler h e req st)))"
  using assms by (simp add: http_request_def dispatch_def split: prod.splits)

section \<open>The claims\<close>

text \<open>
  C1. Whenever \<open>POST /notification\<close> succeeds (the handler answers 201), the event
  \<open>notification\<close> reaches every connected socket, each socket receives it once, after
  what it had received before, and its payload is the document that was just created
  and stored (with the generated id and the timestamps): the very document that the
  response carries as \<open>data\<close>.
\<close>

theorem notification_success_broadcasts_record:
  assumes "notification e req st = (st', Inr res)" and "status res = 201"
  shows "\<exists>doc srv srv'.
      data (json res) = Some (Record doc) \<and>
      oid doc = new_id e \<and> createdAt doc = now e \<and> updatedAt doc = now e \<and>
      collection st' = collection st @ [doc] \<and>
      io st = Some srv \<and> io st' = Some srv' \<and>
      list_all2 (\<lambda>s s'. sid s' = sid s \<and> handlers s' = handlers s \<and>
            received s' = received s @ [(''notification'', doc)])
        (sockets srv) (sockets srv')"
proof -
  from notification_responded_201 [OF assms] obtain doc srv where
    cr: "create e (get_prop (body req) ''message'') (get_prop (body req) ''userId'')
           (collection st) = Inr (doc, collection st @ [doc])"
    and io: "io st = Some srv"
    and st': "st' = st\<lparr>console := console st @
                  [Values [get_prop (body req) ''message'', get_prop (body req) ''userId'']],
                collection := collection st @ [doc],
                io := Some (emit ''notification'' doc srv)\<rparr>"
    and res: "res = \<lparr>status = 201,
             json = \<lparr>body_message = ''Notification Sent Successfully'', success = True,
                     data = Some (Record doc)\<rparr>\<rparr>"
    by blast
  from create_Inr [OF cr] have d: "oid doc = new_id e" "createdAt doc = now e"
    "updatedAt doc = now e"
    by simp_all
  from st' res io d emit_reaches_every_socket [of "''notification''" doc srv]
  show ?thesis by simp
qed

text \<open>The sample request against a server with two connected sockets.\<close>

theorem notification_success_broadcasts_record_witness:
  "\<exists>doc srv srv'.
      data (json \<lparr>status = 201,
           json = \<lparr>body_message = ''Notification Sent Successfully'', success = True,
                   data = Some (Record sample_doc)\<rparr>\<rparr>) = Some (Record doc) \<and>
      oid doc = new_id sample_env \<and> createdAt doc = now sample_env \<and>
      updatedAt doc = now sample_env \<and>
      collection (sample_server\<lparr>console := [Values [JStr ''hi'', JStr ''u1'']],
         collection := [sample_doc],
         io := Some (emit ''notification'' sample_doc
                 \<lparr>sockets = [\<lparr>sid = ''a'', handlers = [], received = []\<rparr>,
                               \<lparr>sid = ''b'', handlers = [], received = []\<rparr>]\<rparr>)\<rparr>)
        = collection sample_server @ [doc] \<and>
      io sample_server = Some srv \<and>
      io (sample_server\<lparr>console := [Values [JStr ''hi'', JStr ''u1'']],
         collection := [sample_doc],
         io := Some (emit ''notification'' sample_doc
                 \<lparr>sockets = [\<lparr>sid = ''a'', handlers = [], received = []\<rparr>,
                               \<lparr>sid = ''b'', handlers = [], received = []\<rparr>]\<rparr>)\<rparr>) = Some srv' \<and>
      list_all2 (\<lambda>s s'. sid s' = sid s \<and> handlers s' = handlers s \<and>
            received s' = received s @ [(''notification'', doc)])
        (sockets srv) (sockets srv')"
proof -
  have run: "notification sample_env sample_request sample_server =
     (sample_server\<lparr>console := [Values [JStr ''hi'', JStr ''u1'']],
         collection := [sample_doc],
         io := Some (emit ''notification'' sample_doc
                 \<lparr>sockets = [\<lparr>sid = ''a'', handlers = [], received = []\<rparr>,
                               \<lparr>sid = ''b'', handlers = [], received = []\<rparr>]\<rparr>)\<rparr>,
      Inr \<lparr>status = 201,
           json = \<lparr>body_message = ''Notification Sent Successfully'', success = True,
                   data = Some (Record sample_doc)\<rparr>\<rparr>)"
    by (simp add: notification_def Let_def js_not_def console_log_def getIo_def
        create_def read_default message_path_string userId_path_string
        sample_env_def sample_request_def sample_server_def sample_doc_def)
  show ?thesis
    by (rule notification_success_broadcasts_record [OF run]) simp
qed

text \<open>
  C2. A \<open>POST /notification\<close> without a body: both fields are missing, but the handler
  throws a \<open>TypeError\<close> when it destructures \<open>req.body\<close>, before its guard, and the
  request is answered with the error page 500, not with 400. (Nothing is stored or
  sent to a socket.)
\<close>

theorem bodyless_post_is_not_answered_400:
  "notification sample_env \<lparr>body = JUndefined\<rparr> (resume (index_js (boot []))) =
     (resume (index_js (boot [])), Inl TypeError) \<and>
   http_request sample_env POST ''/notification'' \<lparr>body = JUndefined\<rparr>
       (resume (index_js (boot []))) =
     Some (resume (index_js (boot [])), ErrorPage 500)"
  by (simp add: notification_no_body http_request_handler started_resumed
      post_notification_route)

text \<open>
  C3. When \<open>message\<close> and \<open>userId\<close> are non-empty strings, the insert succeeds and the
  realtime server is initialised, \<open>POST /notification\<close> answers 201 and the \<open>data\<close> of
  the answer is a document with the same \<open>message\<close> and \<open>userId\<close>, the generated id,
  \<open>read\<close> equal to false (the default of the schema), and both timestamps set to the
  time of the call.
\<close>

theorem notification_valid_created:
  assumes "get_prop (body req) ''message'' = JStr m" and "m \<noteq> []"
    and "get_prop (body req) ''userId'' = JStr u" and "u \<noteq> []"
    and "\<not> insert_fails e" and "io st = Some srv"
  shows "\<exists>st' doc. notification e req st =
           (st', Inr \<lparr>status = 201,
                      json = \<lparr>body_message = ''Notification Sent Successfully'', success = True,
                              data = Some (Record doc)\<rparr>\<rparr>) \<and>
         message doc = Some m \<and> userId doc = Some u \<and> oid doc = new_id e \<and>
         read doc = Some False \<and> createdAt doc = now e \<and> updatedAt doc = now e"
  using notification_created [OF assms refl] by simp

text \<open>The sample request.\<close>

theorem notification_valid_created_witness:
  "\<exists>st' doc. notification sample_env sample_request sample_server =
           (st', Inr \<lparr>status = 201,
                      json = \<lparr>body_message = ''Notification Sent Successfully'', success = True,
                              data = Some (Record doc)\<rparr>\<rparr>) \<and>
         message doc = Some ''hi'' \<and> userId doc = Some ''u1'' \<and> oid doc = ''65f0c0ffee'' \<and>
         read doc = Some False \<and> createdAt doc = 1700000000000 \<and> updatedAt doc = 1700000000000"
proof -
  have "get_prop (body sample_request) ''message'' = JStr ''hi''"
    and "''hi'' \<noteq> []"
    and "get_prop (body sample_request) ''userId'' = JStr ''u1''"
    and "''u1'' \<noteq> []"
    and "\<not> insert_fails sample_env"
    and "io sample_server = Some \<lparr>sockets = [\<lparr>sid = ''a'', handlers = [], received = []\<rparr>,
                               \<lparr>sid = ''b'', handlers = [], received = []\<rparr>]\<rparr>"
    by (simp_all add: sample_request_def sample_env_def sample_server_def)
  from notification_valid_created [OF this] show ?thesis
    by (simp add: sample_env_def)
qed

text \<open>
  C4. When \<open>POST /notification\<close> reaches \<open>create\<close> (both fields are truthy) and
  \<open>create\<close> rejects, the request is answered 500: the handler has no \<open>try\<close>, its
  rejection goes to the error handler of the framework, and that one answers. The
  handler has left before \<open>getIo\<close> and \<open>io.emit\<close>: the realtime server and all its
  sockets are what they were, and so is the collection.
\<close>

theorem write_failure_answered_500:
  assumes "listening st" and "lookup_route POST p (routes st) = Some Notification"
    and "truthy (get_prop (body req) ''message'')"
    and "truthy (get_prop (body req) ''userId'')"
    and "create e (get_prop (body req) ''message'') (get_prop (body req) ''userId'')
           (collection st) = Inl err"
  shows "\<exists>st'. http_request e POST p req st = Some (st', ErrorPage 500) \<and>
           notification e req st = (st', Inl err) \<and>
           collection st' = collection st \<and> io st' = io st"
proof -
  from notification_create_rejected [OF assms(3-5)] have
    run: "notification e req st =
      (console_log (Values [get_prop (body req) ''message'', get_prop (body req) ''userId'']) st,
       Inl err)" .
  have "final_handler err = ErrorPage 500"
    by (cases err) simp_all
  with run http_request_handler [OF assms(1,2), of e req] show ?thesis
    by (simp add: console_log_def)
qed

text \<open>
  The sample request with a failing insert, against the started server with one
  connected socket, on a path written in capitals with a trailing slash.
\<close>

theorem write_failure_answered_500_witness:
  "http_request (sample_env\<lparr>insert_fails := True\<rparr>) POST ''/NOTIFICATION/'' sample_request
       (client_connects ''a'' (resume (index_js (boot [])))) =
     Some (\<lparr>io = Some \<lparr>sockets =
                [\<lparr>sid = ''a'',
                  handlers = [(''disconnected'', ConsoleLog ''Server Disconnected...'')],
                  received = []\<rparr>]\<rparr>,
            collection = [],
            console = [Text ''Connected Successfully...'', Values [JStr ''hi'', JStr ''u1'']],
            routes = [(POST, ''/notification'', Notification),
                      (GET, ''/notification'', GetNotification)],
            listening = True, pending = []\<rparr>,
           ErrorPage 500)"
proof -
  let ?e = "sample_env\<lparr>insert_fails := True\<rparr>"
  let ?st = "client_connects ''a'' (resume (index_js (boot [])))"
  have st: "?st =
      \<lparr>io = Some \<lparr>sockets =
                [\<lparr>sid = ''a'',
                  handlers = [(''disconnected'', ConsoleLog ''Server Disconnected...'')],
                  received = []\<rparr>]\<rparr>,
       collection = [], console = [Text ''Connected Successfully...''],
       routes = [(POST, ''/notification'', Notification),
                 (GET, ''/notification'', GetNotification)],
       listening = True, pending = []\<rparr>"
    by (simp add: started_resumed client_connects_def on_connection_def socket_on_def
        console_log_def Let_def)
  have h1: "listening ?st"
    by (simp add: st)
  have h2: "lookup_route POST ''/NOTIFICATION/'' (routes ?st) = Some Notification"
    by (simp add: st lookup_route_def same_path_def strip_slash_def lower_def)
  have h3: "truthy (get_prop (body sample_request) ''message'')"
    and h4: "truthy (get_prop (body sample_request) ''userId'')"
    by (simp_all add: sample_request_def)
  have h5: "create ?e (get_prop (body sample_request) ''message'')
      (get_prop (body sample_request) ''userId'') (collection ?st) = Inl MongoError"
    by (simp add: st sample_request_def sample_env_def create_def read_default
        message_path_string userId_path_string)
  from write_failure_answered_500 [OF h1 h2 h3 h4 h5] obtain st' where
    ans: "http_request ?e POST ''/NOTIFICATION/'' sample_request ?st = Some (st', ErrorPage 500)"
    and run: "notification ?e sample_request ?st = (st', Inl MongoError)"
    by blast
  from notification_create_rejected [OF h3 h4 h5] run have
    "st' = console_log (Values [JStr ''hi'', JStr ''u1'']) ?st"
    by (simp add: sample_request_def)
  with ans show ?thesis
    by (simp add: st console_log_def)
qed

text \<open>
  C5. \<open>GET /notification\<close> leaves the state as it is and answers: 500 with
  \<open>{message: "Internal Server Error", success: false}\<close> when the query fails; 404 with
  \<open>{message: "No Notification Found", success: false}\<close> when the collection is empty;
  200 with every document of the collection as \<open>data\<close> when it holds one or more.
\<close>

theorem getNotification_responses:
  "fst (getNotification e req st) = st \<and>
   (find_fails e \<longrightarrow>
      snd (getNotification e req st) =
        Inr \<lparr>status = 500,
             json = \<lparr>body_message = ''Internal Server Error'', success = False,
                     data = None\<rparr>\<rparr>) \<and>
   (\<not> find_fails e \<and> collection st = [] \<longrightarrow>
      snd (getNotification e req st) =
        Inr \<lparr>status = 404,
             json = \<lparr>body_message = ''No Notification Found'', success = False,
                     data = None\<rparr>\<rparr>) \<and>
   (\<not> find_fails e \<and> collection st \<noteq> [] \<longrightarrow>
      snd (getNotification e req st) =
        Inr \<lparr>status = 200,
             json = \<lparr>body_message = ''Notification Sent Successfully'', success = True,
                     data = Some (Records (collection st))\<rparr>\<rparr>)"
  by (simp add: getNotification_def find_def)

text \<open>A failing query, an empty collection, and a collection of one document.\<close>

theorem getNotification_responses_witness:
  "snd (getNotification (sample_env\<lparr>find_fails := True\<rparr>) sample_request sample_server) =
        Inr \<lparr>status = 500,
             json = \<lparr>body_message = ''Internal Server Error'', success = False,
                     data = None\<rparr>\<rparr> \<and>
   snd (getNotification sample_env sample_request sample_server) =
        Inr \<lparr>status = 404,
             json = \<lparr>body_message = ''No Notification Found'', success = False,
                     data = None\<rparr>\<rparr> \<and>
   snd (getNotification sample_env sample_request (sample_server\<lparr>collection := [sample_doc]\<rparr>)) =
        Inr \<lparr>status = 200,
             json = \<lparr>body_message = ''Notification Sent Successfully'', success = True,
                     data = Some (Records [sample_doc])\<rparr>\<rparr>"
  using getNotification_responses [of "sample_env\<lparr>find_fails := True\<rparr>" sample_request sample_server]
    getNotification_responses [of sample_env sample_request sample_server]
    getNotification_responses [of sample_env sample_request "sample_server\<lparr>collection := [sample_doc]\<rparr>"]
  by (simp add: sample_env_def sample_server_def)

text \<open>
  C6. When index.js has run, the routes are mounted and the process listens, but \<open>io\<close>
  is still unassigned: the rest of \<open>initSocket\<close> waits for the import. \<open>getIo\<close> throws
  \<open>Socket not initialized...\<close> in that state, and the sample request handled in that
  state stores its document and then leaves the handler with that error; the client
  is answered with the error page 500, not with 201. Once the continuation has run,
  \<open>getIo\<close> returns the server.
\<close>

theorem startup_getIo_not_initialized:
  "io (index_js (boot [])) = None \<and>
   pending (index_js (boot [])) = [InitSocketResume] \<and>
   routes (index_js (boot [])) =
     [(POST, ''/notification'', Notification), (GET, ''/notification'', GetNotification)] \<and>
   listening (index_js (boot [])) \<and>
   getIo (index_js (boot [])) = Inl (Error ''Socket not initialized...'') \<and>
   dispatch sample_env POST ''/notification'' sample_request (index_js (boot [])) =
     Some (index_js (boot [])\<lparr>console := [Values [JStr ''hi'', JStr ''u1'']],
                              collection := [sample_doc]\<rparr>,
           Inl (Error ''Socket not initialized...'')) \<and>
   http_request sample_env POST ''/notification'' sample_request (index_js (boot [])) =
     Some (index_js (boot [])\<lparr>console := [Values [JStr ''hi'', JStr ''u1'']],
                              collection := [sample_doc]\<rparr>,
           ErrorPage 500) \<and>
   getIo (resume (index_js (boot []))) = Inr \<lparr>sockets = []\<rparr>"
  by (simp add: started resume_def initSocket_resume_def getIo_def http_request_def
      dispatch_def post_notification_route
      notification_def Let_def js_not_def console_log_def
      create_def read_default message_path_string userId_path_string
      sample_env_def sample_request_def sample_doc_def)

text \<open>
  C7. A client connects to the initialised server and its connection closes. The socket
  was subscribed to the event \<open>disconnected\<close>, not to \<open>disconnect\<close>, which is what the
  transport fires: the console holds the line of the connection and no line of the
  close, so the close listener ran zero times.
\<close>

theorem disconnect_listener_never_runs:
  "io (client_connects ''c'' (resume (index_js (boot [])))) =
     Some \<lparr>sockets = [\<lparr>sid = ''c'',
                         handlers = [(''disconnected'', ConsoleLog ''Server Disconnected...'')],
                         received = []\<rparr>]\<rparr> \<and>
   console (client_connects ''c'' (resume (index_js (boot [])))) =
     [Text ''Connected Successfully...''] \<and>
   console (client_disconnects ''c'' (client_connects ''c'' (resume (index_js (boot []))))) =
     [Text ''Connected Successfully...''] \<and>
   io (client_disconnects ''c'' (client_connects ''c'' (resume (index_js (boot []))))) =
     Some \<lparr>sockets = []\<rparr>"
  by (simp add: index_js_def boot_def initSocket_def app_use_def notificationRoute_def
      listen_def resume_def initSocket_resume_def client_connects_def client_disconnects_def
      on_connection_def socket_on_def console_log_def fire_def Let_def)

text \<open>
  C8 as stated fails: the schema accepts a document without \<open>userId\<close>. Here
  \<open>create\<close> on a message and an undefined \<open>userId\<close> stores the document.
\<close>

theorem create_accepts_absent_userId:
  "create sample_env (JStr ''hi'') JUndefined [] =
     Inr (\<lparr>oid = ''65f0c0ffee'', message = Some ''hi'', userId = None, read = Some False,
           createdAt = 1700000000000, updatedAt = 1700000000000\<rparr>,
          [\<lparr>oid = ''65f0c0ffee'', message = Some ''hi'', userId = None, read = Some False,
            createdAt = 1700000000000, updatedAt = 1700000000000\<rparr>])"
  by (simp add: create_def read_default message_path_string userId_path_undefined Let_def
      sample_env_def)

text \<open>
  C8, as the code has it. The schema requires \<open>message\<close> only: \<open>create\<close> stores a
  document whose \<open>userId\<close> is absent, and rejects one whose \<open>message\<close> is absent or
  empty with a \<open>required\<close> validation error. It is the write handler that refuses a
  falsy \<open>userId\<close>: it stores nothing then, and its guard answers 400 whenever the
  request has a body. So whatever the handler does, it either leaves the collection as
  it was or appends one document that has a \<open>userId\<close>.
\<close>

theorem userId_required_only_by_handler:
  "(m \<noteq> [] \<and> \<not> insert_fails e \<longrightarrow>
      (\<exists>doc. create e (JStr m) JUndefined coll = Inr (doc, coll @ [doc]) \<and>
             message doc = Some m \<and> userId doc = None)) \<and>
   (msg \<in> {JUndefined, JStr ''''} \<longrightarrow>
      (\<exists>errs. create e msg uid coll = Inl (ValidationError errs) \<and>
              (''message'', Required) \<in> set errs)) \<and>
   (js_not (get_prop (body req) ''userId'') \<longrightarrow>
      collection (fst (notification e req st)) = collection st) \<and>
   (body req \<noteq> JUndefined \<and> body req \<noteq> JNull \<and> js_not (get_prop (body req) ''userId'') \<longrightarrow>
      (\<exists>st'. notification e req st =
          (st', Inr \<lparr>status = 400,
                     json = \<lparr>body_message = ''Bad Request'', success = False,
                             data = None\<rparr>\<rparr>) \<and>
        collection st' = collection st)) \<and>
   (notification e req st = (st', r) \<longrightarrow>
      collection st' = collection st \<or>
      (\<exists>doc s. collection st' = collection st @ [doc] \<and> userId doc = Some s))"
proof -
  have a: "\<exists>doc. create e (JStr m) JUndefined coll = Inr (doc, coll @ [doc]) \<and>
             message doc = Some m \<and> userId doc = None"
    if "m \<noteq> []" and "\<not> insert_fails e"
    unfolding create_def message_path_string userId_path_undefined read_default
    using that by (simp add: Let_def)
  have b: "\<exists>errs. create e msg uid coll = Inl (ValidationError errs) \<and>
              (''message'', Required) \<in> set errs"
    if "msg \<in> {JUndefined, JStr ''''}"
  proof -
    obtain uerr us where u: "set_string_path e ''userId'' userId_path uid = (uerr, us)"
      by (cases "set_string_path e ''userId'' userId_path uid")
    from that show ?thesis
      unfolding create_def
      by (auto simp: u read_default message_path_string message_path_undefined Let_def)
  qed
  have c: "\<exists>st'. notification e req st =
          (st', Inr \<lparr>status = 400,
                     json = \<lparr>body_message = ''Bad Request'', success = False,
                             data = None\<rparr>\<rparr>) \<and>
        collection st' = collection st"
    if "body req \<noteq> JUndefined" and "body req \<noteq> JNull"
      and "js_not (get_prop (body req) ''userId'')"
    using notification_bad_request [OF that(1,2), of e st] that(3)
    by (simp add: console_log_def)
  have c': "collection (fst (notification e req st)) = collection st"
    if falsy: "js_not (get_prop (body req) ''userId'')"
  proof (cases "body req = JUndefined \<or> body req = JNull")
    case True
    from notification_no_body [OF True] show ?thesis by simp
  next
    case False
    with c falsy show ?thesis by auto
  qed
  have d: "collection st' = collection st \<or>
      (\<exists>doc s. collection st' = collection st @ [doc] \<and> userId doc = Some s)"
    if run: "notification e req st = (st', r)"
  proof -
    let ?msg = "get_prop (body req) ''message''"
    let ?uid = "get_prop (body req) ''userId''"
    let ?st1 = "console_log (Values [?msg, ?uid]) st"
    show ?thesis
    proof (cases "body req = JUndefined \<or> body req = JNull")
      case True
      from notification_no_body [OF True, of e st] run show ?thesis by simp
    next
      case present: False
      show ?thesis
      proof (cases "js_not ?msg \<or> js_not ?uid")
        case True
        from present have "body req \<noteq> JUndefined" and "body req \<noteq> JNull"
          by simp_all
        from notification_bad_request [OF this True, of e st] run show ?thesis
          by (auto simp: console_log_def)
      next
        case False
        show ?thesis
        proof (cases "create e ?msg ?uid (collection ?st1)")
          case (Inl err)
          with False present run show ?thesis
            by (auto simp: notification_def Let_def console_log_def)
        next
          case (Inr p)
          obtain doc coll' where p: "p = (doc, coll')" by (cases p)
          from create_Inr [OF Inr [unfolded p]] have coll': "coll' = collection st @ [doc]"
            and u: "set_string_path e ''userId'' userId_path ?uid = ([], userId doc)"
            by (simp_all add: console_log_def)
          from False have "truthy ?uid" by (simp add: js_not_def)
          from userId_path_truthy [OF this u] obtain s where s: "userId doc = Some s" ..
          from False present run Inr p have "collection st' = coll'"
            by (auto simp: notification_def Let_def split: sum.splits)
          with coll' s show ?thesis by simp
        qed
      qed
    qed
  qed
  from a b c c' d show ?thesis by blast
qed

text \<open>
  A direct \<open>create\<close> without \<open>userId\<close>, one without \<open>message\<close>, a request without
  \<open>userId\<close>, and the sample request.
\<close>

theorem userId_required_only_by_handler_witness:
  "(\<exists>doc. create sample_env (JStr ''hi'') JUndefined [] = Inr (doc, [] @ [doc]) \<and>
          message doc = Some ''hi'' \<and> userId doc = None) \<and>
   (\<exists>errs. create sample_env JUndefined (JStr ''u1'') [] = Inl (ValidationError errs) \<and>
           (''message'', Required) \<in> set errs) \<and>
   collection (fst (notification sample_env \<lparr>body = JObj [(''message'', JStr ''hi'')]\<rparr>
       sample_server)) = collection sample_server \<and>
   (\<exists>st'. notification sample_env \<lparr>body = JObj [(''message'', JStr ''hi'')]\<rparr> sample_server =
          (st', Inr \<lparr>status = 400,
                     json = \<lparr>body_message = ''Bad Request'', success = False,
                             data = None\<rparr>\<rparr>) \<and>
        collection st' = collection sample_server) \<and>
   (\<exists>doc s. collection (fst (notification sample_env sample_request sample_server)) =
             collection sample_server @ [doc] \<and> userId doc = Some s)"
proof -
  let ?req = "\<lparr>body = JObj [(''message'', JStr ''hi'')]\<rparr>"
  have h1: "''hi'' \<noteq> [] \<and> \<not> insert_fails sample_env"
    by (simp add: sample_env_def)
  have h2: "JUndefined \<in> {JUndefined, JStr ''''}"
    by simp
  have h3: "body ?req \<noteq> JUndefined \<and> body ?req \<noteq> JNull \<and>
      js_not (get_prop (body ?req) ''userId'')"
    by (simp add: js_not_def)
  have h4: "notification sample_env sample_request sample_server =
      (fst (notification sample_env sample_request sample_server),
       snd (notification sample_env sample_request sample_server))"
    by simp
  have grown: "collection (fst (notification sample_env sample_request sample_server)) \<noteq>
      collection sample_server"
    by (simp add: notification_def Let_def js_not_def console_log_def getIo_def
        create_def read_default message_path_string userId_path_string
        sample_env_def sample_request_def sample_server_def)
  from userId_required_only_by_handler [of "''hi''" sample_env "[]" JUndefined "JStr ''u1''"
      ?req sample_server] h1 h2 h3
  have first: "(\<exists>doc. create sample_env (JStr ''hi'') JUndefined [] = Inr (doc, [] @ [doc]) \<and>
          message doc = Some ''hi'' \<and> userId doc = None) \<and>
   (\<exists>errs. create sample_env JUndefined (JStr ''u1'') [] = Inl (ValidationError errs) \<and>
           (''message'', Required) \<in> set errs) \<and>
   collection (fst (notification sample_env ?req sample_server)) = collection sample_server \<and>
   (\<exists>st'. notification sample_env ?req sample_server =
          (st', Inr \<lparr>status = 400,
                     json = \<lparr>body_message = ''Bad Request'', success = False,
                             data = None\<rparr>\<rparr>) \<and>
        collection st' = collection sample_server)"
    by blast
  from userId_required_only_by_handler [of "''hi''" sample_env "[]" JUndefined "JStr ''u1''"
      sample_request sample_server
      "fst (notification sample_env sample_request sample_server)"
      "snd (notification sample_env sample_request sample_server)"] h4 grown
  have "\<exists>doc s. collection (fst (notification sample_env sample_request sample_server)) =
             collection sample_server @ [doc] \<and> userId doc = Some s"
    by blast
  with first show ?thesis by blast
qed

text \<open>
  C9. A 200 answer of \<open>GET /notification\<close> carries the message
  \<open>Notification Sent Successfully\<close>, which is also the message of every 201 answer of
  \<open>POST /notification\<close>.
\<close>

theorem getNotification_ok_message:
  "(getNotification e req st = (st', Inr res) \<and> status res = 200 \<longrightarrow>
      body_message (json res) = ''Notification Sent Successfully'') \<and>
   (getNotification e req st = (st', Inr res) \<and> status res = 200 \<and>
    notification e2 req2 st2 = (st2', Inr res2) \<and> status res2 = 201 \<longrightarrow>
      body_message (json res) = body_message (json res2))"
proof -
  have get: "body_message (json res) = ''Notification Sent Successfully''"
    if "getNotification e req st = (st', Inr res)" and "status res = 200"
    using that by (auto simp: getNotification_def split: sum.splits if_splits)
  have post: "body_message (json res2) = ''Notification Sent Successfully''"
    if "notification e2 req2 st2 = (st2', Inr res2)" and "status res2 = 201"
    using notification_responded_201 [OF that] by auto
  from get post show ?thesis by simp
qed

text \<open>A read of one stored document, beside the sample write.\<close>

theorem getNotification_ok_message_witness:
  "getNotification sample_env sample_request (sample_server\<lparr>collection := [sample_doc]\<rparr>) =
     (sample_server\<lparr>collection := [sample_doc]\<rparr>,
      Inr \<lparr>status = 200,
           json = \<lparr>body_message = ''Notification Sent Successfully'', success = True,
                   data = Some (Records [sample_doc])\<rparr>\<rparr>) \<and>
   snd (notification sample_env sample_request sample_server) =
      Inr \<lparr>status = 201,
           json = \<lparr>body_message = ''Notification Sent Successfully'', success = True,
                   data = Some (Record sample_doc)\<rparr>\<rparr> \<and>
   body_message (json \<lparr>status = 200,
           json = \<lparr>body_message = ''Notification Sent Successfully'', success = True,
                   data = Some (Records [sample_doc])\<rparr>\<rparr>) =
   body_message (json \<lparr>status = 201,
           json = \<lparr>body_message = ''Notification Sent Successfully'', success = True,
                   data = Some (Record sample_doc)\<rparr>\<rparr>)"
proof -
  let ?st = "sample_server\<lparr>collection := [sample_doc]\<rparr>"
  let ?res = "\<lparr>status = 200,
           json = \<lparr>body_message = ''Notification Sent Successfully'', success = True,
                   data = Some (Records [sample_doc])\<rparr>\<rparr>"
  let ?res2 = "\<lparr>status = 201,
           json = \<lparr>body_message = ''Notification Sent Successfully'', success = True,
                   data = Some (Record sample_doc)\<rparr>\<rparr>"
  have run: "getNotification sample_env sample_request ?st = (?st, Inr ?res)"
    by (simp add: getNotification_def find_def sample_env_def sample_server_def)
  have "get_prop (body sample_request) ''message'' = JStr ''hi''"
    and "''hi'' \<noteq> []"
    and "get_prop (body sample_request) ''userId'' = JStr ''u1''"
    and "''u1'' \<noteq> []"
    and "\<not> insert_fails sample_env"
    and "io sample_server = Some \<lparr>sockets = [\<lparr>sid = ''a'', handlers = [], received = []\<rparr>,
                               \<lparr>sid = ''b'', handlers = [], received = []\<rparr>]\<rparr>"
    and "sample_doc = \<lparr>oid = new_id sample_env, message = Some ''hi'', userId = Some ''u1'',
          read = Some False, createdAt = now sample_env, updatedAt = now sample_env\<rparr>"
    by (simp_all add: sample_request_def sample_env_def sample_server_def
        sample_doc_def)
  from notification_created [OF this] obtain st2' where
    run2: "notification sample_env sample_request sample_server = (st2', Inr ?res2)"
    by simp
  from getNotification_ok_message [of sample_env sample_request ?st ?st ?res
      sample_env sample_request sample_server st2' ?res2] run run2
  show ?thesis by simp
qed

text \<open>
  C10. \<open>POST /notification\<close> (with a body) answers 400 exactly when \<open>message\<close> or
  \<open>userId\<close> is falsy. The empty string, \<open>0\<close>, \<open>false\<close>, \<open>null\<close> and \<open>undefined\<close> are
  falsy; the string of one blank is truthy. A request whose \<open>message\<close> and \<open>userId\<close>
  are that string is answered 201 (when the insert succeeds and the realtime server is
  initialised): the document with the blank values is appended to the collection, and
  every connected socket receives it once as \<open>notification\<close>, after what it had
  received before.
\<close>

theorem notification_validation_is_truthiness:
  "((\<exists>st' res. notification e req st = (st', Inr res) \<and> status res = 400) \<longleftrightarrow>
      body req \<noteq> JUndefined \<and> body req \<noteq> JNull \<and>
      (\<not> truthy (get_prop (body req) ''message'') \<or>
       \<not> truthy (get_prop (body req) ''userId''))) \<and>
   (\<forall>v \<in> {JStr '''', JNum 0, JBool False, JNull, JUndefined}. \<not> truthy v) \<and>
   truthy (JStr '' '') \<and>
   (get_prop (body req) ''message'' = JStr '' '' \<and>
    get_prop (body req) ''userId'' = JStr '' '' \<and> \<not> insert_fails e \<and> io st = Some srv \<longrightarrow>
      (\<exists>st' doc srv'. notification e req st =
           (st', Inr \<lparr>status = 201,
                      json = \<lparr>body_message = ''Notification Sent Successfully'', success = True,
                              data = Some (Record doc)\<rparr>\<rparr>) \<and>
         message doc = Some '' '' \<and> userId doc = Some '' '' \<and>
         collection st' = collection st @ [doc] \<and>
         io st' = Some srv' \<and>
         list_all2 (\<lambda>s s'. sid s' = sid s \<and> handlers s' = handlers s \<and>
               received s' = received s @ [(''notification'', doc)])
           (sockets srv) (sockets srv')))"
proof -
  let ?msg = "get_prop (body req) ''message''"
  let ?uid = "get_prop (body req) ''userId''"
  have iff: "(\<exists>st' res. notification e req st = (st', Inr res) \<and> status res = 400) \<longleftrightarrow>
      body req \<noteq> JUndefined \<and> body req \<noteq> JNull \<and> (\<not> truthy ?msg \<or> \<not> truthy ?uid)"
  proof
    assume "\<exists>st' res. notification e req st = (st', Inr res) \<and> status res = 400"
    then obtain st' res where run: "notification e req st = (st', Inr res)"
      and bad: "status res = 400"
      by blast
    from run have present: "\<not> (body req = JUndefined \<or> body req = JNull)"
      by (auto simp: notification_def)
    have "\<not> truthy ?msg \<or> \<not> truthy ?uid"
    proof (rule ccontr)
      assume "\<not> (\<not> truthy ?msg \<or> \<not> truthy ?uid)"
      then have "\<not> (js_not ?msg \<or> js_not ?uid)"
        by (simp add: js_not_def)
      with run present have "status res = 201"
        by (auto simp: notification_def Let_def split: sum.splits)
      with bad show False by simp
    qed
    with present show "body req \<noteq> JUndefined \<and> body req \<noteq> JNull \<and>
        (\<not> truthy ?msg \<or> \<not> truthy ?uid)"
      by simp
  next
    assume falsy: "body req \<noteq> JUndefined \<and> body req \<noteq> JNull \<and>
        (\<not> truthy ?msg \<or> \<not> truthy ?uid)"
    then have "js_not ?msg \<or> js_not ?uid"
      by (simp add: js_not_def)
    from notification_bad_request [OF _ _ this, of e st] falsy show
      "\<exists>st' res. notification e req st = (st', Inr res) \<and> status res = 400"
      by simp
  qed
  have blank: "\<exists>st' doc srv'. notification e req st =
           (st', Inr \<lparr>status = 201,
                      json = \<lparr>body_message = ''Notification Sent Successfully'', success = True,
                              data = Some (Record doc)\<rparr>\<rparr>) \<and>
         message doc = Some '' '' \<and> userId doc = Some '' '' \<and>
         collection st' = collection st @ [doc] \<and>
         io st' = Some srv' \<and>
         list_all2 (\<lambda>s s'. sid s' = sid s \<and> handlers s' = handlers s \<and>
               received s' = received s @ [(''notification'', doc)])
           (sockets srv) (sockets srv')"
    if "?msg = JStr '' ''" and "?uid = JStr '' ''" and "\<not> insert_fails e" and "io st = Some srv"
  proof -
    let ?doc = "\<lparr>oid = new_id e, message = Some '' '', userId = Some '' '',
        read = Some False, createdAt = now e, updatedAt = now e\<rparr>"
    from notification_created [OF that(1) _ that(2) _ that(3) that(4) refl]
      emit_reaches_every_socket [of "''notification''" ?doc srv]
    show ?thesis by simp
  qed
  from iff blank show ?thesis by simp
qed

text \<open>
  An empty message with \<open>userId\<close> 0, and a request of two blanks against a server with
  two connected sockets, each of which receives the stored document.
\<close>

theorem notification_validation_is_truthiness_witness:
  "(\<exists>st' res. notification sample_env
        \<lparr>body = JObj [(''message'', JStr ''''), (''userId'', JNum 0)]\<rparr>
        sample_server = (st', Inr res) \<and> status res = 400) \<and>
   (\<exists>st' doc srv'. notification sample_env
        \<lparr>body = JObj [(''message'', JStr '' ''), (''userId'', JStr '' '')]\<rparr> sample_server =
           (st', Inr \<lparr>status = 201,
                      json = \<lparr>body_message = ''Notification Sent Successfully'', success = True,
                              data = Some (Record doc)\<rparr>\<rparr>) \<and>
         message doc = Some '' '' \<and> userId doc = Some '' '' \<and>
         collection st' = collection sample_server @ [doc] \<and>
         io st' = Some srv' \<and>
         map sid (sockets srv') = [''a'', ''b''] \<and>
         map received (sockets srv') = [[(''notification'', doc)], [(''notification'', doc)]])"
proof -
  let ?falsy = "\<lparr>body = JObj [(''message'', JStr ''''), (''userId'', JNum 0)]\<rparr>"
  let ?blank = "\<lparr>body = JObj [(''message'', JStr '' ''), (''userId'', JStr '' '')]\<rparr>"
  let ?srv = "\<lparr>sockets = [\<lparr>sid = ''a'', handlers = [], received = []\<rparr>,
                          \<lparr>sid = ''b'', handlers = [], received = []\<rparr>]\<rparr>"
  have f: "body ?falsy \<noteq> JUndefined \<and> body ?falsy \<noteq> JNull \<and>
      (\<not> truthy (get_prop (body ?falsy) ''message'') \<or>
       \<not> truthy (get_prop (body ?falsy) ''userId''))"
    by simp
  have b: "get_prop (body ?blank) ''message'' = JStr '' '' \<and>
      get_prop (body ?blank) ''userId'' = JStr '' '' \<and> \<not> insert_fails sample_env \<and>
      io sample_server = Some ?srv"
    by (simp add: sample_env_def sample_server_def)
  from notification_validation_is_truthiness [of sample_env ?falsy sample_server] f
  have one: "\<exists>st' res. notification sample_env ?falsy sample_server = (st', Inr res) \<and>
      status res = 400"
    by blast
  from notification_validation_is_truthiness [of sample_env ?blank sample_server ?srv] b
  obtain st' doc srv' where
    run: "notification sample_env ?blank sample_server =
           (st', Inr \<lparr>status = 201,
                      json = \<lparr>body_message = ''Notification Sent Successfully'', success = True,
                              data = Some (Record doc)\<rparr>\<rparr>)"
    and doc: "message doc = Some '' ''" "userId doc = Some '' ''"
    and coll: "collection st' = collection sample_server @ [doc]"
    and io: "io st' = Some srv'"
    and all: "list_all2 (\<lambda>s s'. sid s' = sid s \<and> handlers s' = handlers s \<and>
               received s' = received s @ [(''notification'', doc)])
           (sockets ?srv) (sockets srv')"
    by blast
  from all have "map sid (sockets srv') = [''a'', ''b'']"
    and "map received (sockets srv') = [[(''notification'', doc)], [(''notification'', doc)]]"
    by (auto simp: list_all2_Cons1)
  with run doc coll io have "\<exists>st' doc srv'. notification sample_env ?blank sample_server =
           (st', Inr \<lparr>status = 201,
                      json = \<lparr>body_message = ''Notification Sent Successfully'', success = True,
                              data = Some (Record doc)\<rparr>\<rparr>) \<and>
         message doc = Some '' '' \<and> userId doc = Some '' '' \<and>
         collection st' = collection sample_server @ [doc] \<and>
         io st' = Some srv' \<and>
         map sid (sockets srv') = [''a'', ''b''] \<and>
         map received (sockets srv') = [[(''notification'', doc)], [(''notification'', doc)]]"
    by (intro exI [of _ st'] exI [of _ doc] exI [of _ srv']) simp
  with one show ?thesis by blast
qed

end
